theory Spec2Isabelle
  imports Complex_Main
begin

section \<open>The data frame\<close>

text \<open>
  The cleaning endpoint \<open>limpiar_dataset_multiple\<close> of \<open>src/app.py\<close> works on a pandas
  data frame read from a CSV file. A data frame is a list of named, typed columns over a
  common row index. A cell is a number, a text, or the missing marker (pandas' NaN).
  Numbers are exact rationals here: rounding and overflow of the 64-bit machine numbers
  are outside the model.

  The column type \<open>Object\<close> stands for every pandas type other than \<open>float64\<close> and
  \<open>int64\<close>; the code only ever asks whether a column has one of these two types.
\<close>

datatype cell = Num rat | Txt string | Missing

datatype dtype = Float64 | Int64 | Object

record column =
  name :: string
  dtype :: dtype
  cells :: "cell list"

type_synonym table = "column list"

text \<open>\<open>len(df)\<close>: the length of the row index, read off the first column.\<close>

fun len :: "table \<Rightarrow> nat" where
  "len [] = 0"
| "len (c # cs) = length (cells c)"

text \<open>The invariant of a data frame: every column has one cell per row.\<close>

definition uniform :: "table \<Rightarrow> bool" where
  "uniform df = list_all (\<lambda>c. length (cells c) = len df) df"

definition columns :: "table \<Rightarrow> string list" where
  "columns df = map name df"

text \<open>Row \<open>i\<close> of the frame, and all rows in index order.\<close>

definition row :: "table \<Rightarrow> nat \<Rightarrow> cell list" where
  "row df i = map (\<lambda>c. cells c ! i) df"

definition rows :: "table \<Rightarrow> cell list list" where
  "rows df = map (row df) [0..<len df]"

text \<open>\<open>df[mask]\<close>: boolean indexing keeps, in every column, the cells whose mask entry
  is true.\<close>

definition select :: "bool list \<Rightarrow> 'a list \<Rightarrow> 'a list" where
  "select keep xs = map fst (filter snd (zip xs keep))"

definition take_mask :: "bool list \<Rightarrow> table \<Rightarrow> table" where
  "take_mask keep df = map (\<lambda>c. c\<lparr>cells := select keep (cells c)\<rparr>) df"

text \<open>\<open>df[col]\<close> raises \<open>KeyError\<close> when no column has that name: \<open>None\<close> here.\<close>

definition getcol :: "table \<Rightarrow> string \<Rightarrow> column option" where
  "getcol df col = find (\<lambda>c. name c = col) df"

text \<open>\<open>df[col].dtype in ['float64', 'int64']\<close>\<close>

definition is_numeric :: "column \<Rightarrow> bool" where
  "is_numeric c = (dtype c = Float64 \<or> dtype c = Int64)"

text \<open>\<open>list(df.select_dtypes(include=['float64', 'int64']).columns)\<close>\<close>

definition select_dtypes :: "table \<Rightarrow> string list" where
  "select_dtypes df = map name (filter is_numeric df)"

section \<open>The pandas operations the endpoint calls\<close>

subsection \<open>Duplicates\<close>

text \<open>\<open>df.duplicated()\<close> marks a row that equals an earlier row in all columns; two
  missing cells count as equal. \<open>df.drop_duplicates()\<close> keeps the unmarked rows.\<close>

fun duplicated_from :: "'a list \<Rightarrow> 'a list \<Rightarrow> bool list" where
  "duplicated_from seen [] = []"
| "duplicated_from seen (r # rs) = (r \<in> set seen) # duplicated_from (r # seen) rs"

definition duplicated :: "table \<Rightarrow> bool list" where
  "duplicated df = duplicated_from [] (rows df)"

definition drop_duplicates :: "table \<Rightarrow> table" where
  "drop_duplicates df = take_mask (map Not (duplicated df)) df"

subsection \<open>Missing cells\<close>

text \<open>\<open>df.dropna()\<close> keeps the rows without a missing cell.\<close>

definition dropna :: "table \<Rightarrow> table" where
  "dropna df = take_mask (map (\<lambda>r. Missing \<notin> set r) (rows df)) df"

text \<open>\<open>df.fillna(method='ffill')\<close> copies the last seen value of the column into a
  missing cell (a leading missing cell stays); \<open>'bfill'\<close> does the same from the end.\<close>

fun ffill_from :: "cell \<Rightarrow> cell list \<Rightarrow> cell list" where
  "ffill_from prev [] = []"
| "ffill_from prev (x # xs) =
     (if x = Missing then prev # ffill_from prev xs else x # ffill_from x xs)"

definition ffill :: "cell list \<Rightarrow> cell list" where
  "ffill xs = ffill_from Missing xs"

definition bfill :: "cell list \<Rightarrow> cell list" where
  "bfill xs = rev (ffill_from Missing (rev xs))"

definition fillna_method :: "string \<Rightarrow> table \<Rightarrow> table" where
  "fillna_method m df =
     map (\<lambda>c. c\<lparr>cells := (if m = ''ffill'' then ffill (cells c) else bfill (cells c))\<rparr>) df"

text \<open>The numbers of a column: pandas' reductions skip the missing cells.\<close>

fun nums :: "cell list \<Rightarrow> rat list" where
  "nums [] = []"
| "nums (Num v # xs) = v # nums xs"
| "nums (_ # xs) = nums xs"

text \<open>Scalars returned by a reduction are numbers or NaN (\<open>None\<close>).\<close>

definition mean :: "cell list \<Rightarrow> rat option" where
  "mean xs = (let vs = nums xs in
     if vs = [] then None else Some (sum_list vs / of_nat (length vs)))"

fun fill_cell :: "rat option \<Rightarrow> cell \<Rightarrow> cell" where
  "fill_cell (Some m) Missing = Num m"
| "fill_cell _ x = x"

text \<open>\<open>df.fillna(df.mean(numeric_only=True))\<close>: the mean is taken per numeric column
  and fills that column only; a column without a mean entry is not touched.\<close>

definition fillna_mean :: "table \<Rightarrow> table" where
  "fillna_mean df =
     map (\<lambda>c. if is_numeric c then c\<lparr>cells := map (fill_cell (mean (cells c))) (cells c)\<rparr>
               else c) df"

subsection \<open>Quantiles, minimum and maximum\<close>

text \<open>\<open>Series.quantile(q)\<close> with the default linear interpolation: over the sorted
  numbers \<open>v\<^sub>0 \<dots> v\<^sub>n\<^sub>-\<^sub>1\<close> the position is \<open>h = (n - 1) q\<close> and the result lies
  between \<open>v\<close> at \<open>\<lfloor>h\<rfloor>\<close> and its successor. A column without numbers gives NaN.\<close>

definition quantile :: "cell list \<Rightarrow> rat \<Rightarrow> rat option" where
  "quantile xs q = (let vs = sort (nums xs); n = length vs in
     if n = 0 then None
     else let h = of_nat (n - 1) * q;
              lo = nat \<lfloor>h\<rfloor>;
              hi = min (lo + 1) (n - 1)
          in Some (vs ! lo + (h - of_nat lo) * (vs ! hi - vs ! lo)))"

definition min_val :: "cell list \<Rightarrow> rat option" where
  "min_val xs = (let vs = nums xs in if vs = [] then None else Some (Min (set vs)))"

definition max_val :: "cell list \<Rightarrow> rat option" where
  "max_val xs = (let vs = nums xs in if vs = [] then None else Some (Max (set vs)))"

text \<open>Arithmetic and comparison with NaN: an operation on NaN is NaN, a comparison
  with NaN is false.\<close>

fun np_sub :: "rat option \<Rightarrow> rat option \<Rightarrow> rat option" where
  "np_sub (Some a) (Some b) = Some (a - b)"
| "np_sub _ _ = None"

fun np_add :: "rat option \<Rightarrow> rat option \<Rightarrow> rat option" where
  "np_add (Some a) (Some b) = Some (a + b)"
| "np_add _ _ = None"

fun np_mul :: "rat \<Rightarrow> rat option \<Rightarrow> rat option" where
  "np_mul u (Some b) = Some (u * b)"
| "np_mul u None = None"

fun np_div :: "rat option \<Rightarrow> rat option \<Rightarrow> rat option" where
  "np_div (Some a) (Some b) = Some (a / b)"
| "np_div _ _ = None"

fun scalar :: "cell \<Rightarrow> rat option" where
  "scalar (Num v) = Some v"
| "scalar _ = None"

fun to_cell :: "rat option \<Rightarrow> cell" where
  "to_cell (Some v) = Num v"
| "to_cell None = Missing"

fun np_ge :: "cell \<Rightarrow> rat option \<Rightarrow> bool" where
  "np_ge (Num v) (Some b) = (v \<ge> b)"
| "np_ge _ _ = False"

fun np_le :: "cell \<Rightarrow> rat option \<Rightarrow> bool" where
  "np_le (Num v) (Some b) = (v \<le> b)"
| "np_le _ _ = False"

text \<open>Python's \<open>a != b\<close> on two scalars: NaN differs from everything, itself included.\<close>

fun py_ne :: "rat option \<Rightarrow> rat option \<Rightarrow> bool" where
  "py_ne (Some a) (Some b) = (a \<noteq> b)"
| "py_ne _ _ = True"

section \<open>The cleaning endpoint\<close>

text \<open>
  The request body is \<open>{"dataset_id": \<dots>, "tipos_limpieza": [\<dots>]}\<close>. An entry of
  \<open>tipos_limpieza\<close> is a string, an object \<open>{"tipo": \<dots>, "parametros": {\<dots>}}\<close>, or
  anything else. The parameters the code reads are \<open>metodo\<close>, \<open>columnas\<close> and \<open>umbral\<close>;
  a key that the caller left out is \<open>None\<close>. Parameters are taken to be well typed: a
  string, a list of strings and a number.
\<close>

record params =
  metodo :: "string option"
  columnas :: "string list option"
  umbral :: "rat option"

definition no_params :: params where
  "no_params = \<lparr>metodo = None, columnas = None, umbral = None\<rparr>"

datatype limpieza = Str string | Dict "string option" params | Other

record operacion =
  tipo :: "string option"
  parametros :: params
  afectados :: int

datatype error = KeyError string

subsection \<open>The two column loops\<close>

text \<open>Lines 225 to 231: the loop over \<open>columnas\<close> of the \<open>outliers\<close> branch.\<close>

fun outliers_cols :: "rat \<Rightarrow> string list \<Rightarrow> table \<Rightarrow> error + table" where
  "outliers_cols u [] df = Inr df"
| "outliers_cols u (col # cols) df =
     (case getcol df col of
        None \<Rightarrow> Inl (KeyError col)
      | Some c \<Rightarrow>
          if is_numeric c then
            let Q1 = quantile (cells c) (1 / 4);
                Q3 = quantile (cells c) (3 / 4);
                IQR = np_sub Q3 Q1;
                lower = np_sub Q1 (np_mul u IQR);
                upper = np_add Q3 (np_mul u IQR)
            in outliers_cols u cols
                 (take_mask (map (\<lambda>x. np_ge x lower \<and> np_le x upper) (cells c)) df)
          else outliers_cols u cols df)"

text \<open>Line 240: \<open>df[col] = (df[col] - min_val) / (max_val - min_val)\<close>. The result of the
  division is a \<open>float64\<close> column.\<close>

definition rescale :: "rat option \<Rightarrow> rat option \<Rightarrow> cell \<Rightarrow> cell" where
  "rescale mn mx x = to_cell (np_div (np_sub (scalar x) mn) (np_sub mx mn))"

definition setcol :: "string \<Rightarrow> column \<Rightarrow> table \<Rightarrow> table" where
  "setcol col c' df = map (\<lambda>c. if name c = col then c' else c) df"

text \<open>Lines 236 to 240: the loop over \<open>columnas\<close> of the \<open>normalizacion\<close> branch.\<close>

fun normalizacion_cols :: "string list \<Rightarrow> table \<Rightarrow> error + table" where
  "normalizacion_cols [] df = Inr df"
| "normalizacion_cols (col # cols) df =
     (case getcol df col of
        None \<Rightarrow> Inl (KeyError col)
      | Some c \<Rightarrow>
          if is_numeric c then
            let mn = min_val (cells c); mx = max_val (cells c) in
            if py_ne mx mn then
              normalizacion_cols cols
                (setcol col (c\<lparr>dtype := Float64, cells := map (rescale mn mx) (cells c)\<rparr>) df)
            else normalizacion_cols cols df
          else normalizacion_cols cols df)"

text \<open>What one turn of that loop does to the column it names (lines 237 to 240).\<close>

definition norm_col :: "column \<Rightarrow> column" where
  "norm_col c =
     (if is_numeric c \<and> py_ne (max_val (cells c)) (min_val (cells c))
      then c\<lparr>dtype := Float64,
             cells := map (rescale (min_val (cells c)) (max_val (cells c))) (cells c)\<rparr>
      else c)"

subsection \<open>One cleaning step\<close>

text \<open>Lines 203 to 240: the branch on \<open>tipo\<close>. The result is the new frame and
  \<open>afectados\<close>; an exception leaves the loop.\<close>

definition aplicar :: "string option \<Rightarrow> params \<Rightarrow> table \<Rightarrow> error + (table \<times> int)" where
  "aplicar t p df =
     (if t = Some ''duplicados'' then
        let antes = len df; df' = drop_duplicates df
        in Inr (df', int antes - int (len df'))
      else if t = Some ''nulos'' then
        let m = (case metodo p of None \<Rightarrow> ''drop'' | Some s \<Rightarrow> s); antes = len df in
        if m = ''drop'' then
          let df' = dropna df in Inr (df', int antes - int (len df'))
        else if m = ''ffill'' \<or> m = ''bfill'' then Inr (fillna_method m df, 0)
        else if m = ''mean'' then Inr (fillna_mean df, 0)
        else Inr (df, 0)
      else if t = Some ''outliers'' then
        let cols = (case columnas p of None \<Rightarrow> select_dtypes df | Some cs \<Rightarrow> cs);
            u = (case umbral p of None \<Rightarrow> 3 / 2 | Some v \<Rightarrow> v);
            antes = len df
        in (case outliers_cols u cols df of
              Inl e \<Rightarrow> Inl e
            | Inr df' \<Rightarrow> Inr (df', int antes - int (len df')))
      else if t = Some ''normalizacion'' then
        let cols = (case columnas p of None \<Rightarrow> select_dtypes df | Some cs \<Rightarrow> cs)
        in (case normalizacion_cols cols df of
              Inl e \<Rightarrow> Inl e
            | Inr df' \<Rightarrow> Inr (df', 0))
      else Inr (df, 0))"

subsection \<open>The loop over the requested steps\<close>

text \<open>Lines 189 to 247. The state of the loop is the frame, the list
  \<open>operaciones_realizadas\<close> and the sum \<open>total_afectados\<close>. An entry that is neither a
  string nor an object is passed over and leaves no record.\<close>

fun aplicar_limpiezas ::
  "limpieza list \<Rightarrow> table \<times> operacion list \<times> int \<Rightarrow> error + (table \<times> operacion list \<times> int)"
where
  "aplicar_limpiezas [] st = Inr st"
| "aplicar_limpiezas (Other # ls) st = aplicar_limpiezas ls st"
| "aplicar_limpiezas (Str s # ls) (df, ops, tot) =
     (case aplicar (Some s) no_params df of
        Inl e \<Rightarrow> Inl e
      | Inr (df', a) \<Rightarrow>
          aplicar_limpiezas ls
            (df', ops @ [\<lparr>tipo = Some s, parametros = no_params, afectados = a\<rparr>], tot + a))"
| "aplicar_limpiezas (Dict t p # ls) (df, ops, tot) =
     (case aplicar t p df of
        Inl e \<Rightarrow> Inl e
      | Inr (df', a) \<Rightarrow>
          aplicar_limpiezas ls
            (df', ops @ [\<lparr>tipo = t, parametros = p, afectados = a\<rparr>], tot + a))"

subsection \<open>The response\<close>

text \<open>Lines 277 to 295: the statistics of the cleaned frame and the body of the answer.\<close>

record report =
  total_afectados :: int
  operaciones :: "operacion list"
  cleaned_preview :: "cell list list"
  total_filas :: nat
  total_columnas :: nat
  nulls :: nat
  duplicados :: nat
  outliers :: nat

definition isnull_sum :: "table \<Rightarrow> nat" where
  "isnull_sum df = sum_list (map (\<lambda>c. length (filter (\<lambda>x. x = Missing) (cells c))) df)"

definition make_report :: "table \<Rightarrow> operacion list \<Rightarrow> int \<Rightarrow> report" where
  "make_report df ops tot =
     \<lparr>total_afectados = tot,
      operaciones = ops,
      cleaned_preview = take 10 (rows df),
      total_filas = len df,
      total_columnas = length df,
      nulls = isnull_sum df,
      duplicados = length (filter id (duplicated df)),
      outliers = 0\<rparr>"

text \<open>
  The answer of the endpoint: status 200 with the cleaned frame (the file written to
  storage) and the report, status 400 for a request without \<open>dataset_id\<close> or without
  steps, status 404 for an unknown dataset, status 500 for an exception. The catalogue
  and the storage are a parameter: \<open>datasets\<close> maps an identifier to the frame that
  \<open>read_csv\<close> returns for it. Writing the cleaned file and the catalogue row is taken to
  succeed.
\<close>

datatype respuesta = R200 table report | R400 | R404 | R500 error

record request =
  dataset_id :: "int option"
  tipos_limpieza :: "limpieza list"

text \<open>\<open>not dataset_id\<close> holds for a missing identifier and for 0.\<close>

definition limpiar_dataset_multiple :: "(int \<Rightarrow> table option) \<Rightarrow> request \<Rightarrow> respuesta" where
  "limpiar_dataset_multiple datasets req =
     (case dataset_id req of
        None \<Rightarrow> R400
      | Some i \<Rightarrow>
          if i = 0 \<or> tipos_limpieza req = [] then R400
          else (case datasets i of
                  None \<Rightarrow> R404
                | Some df \<Rightarrow>
                    (case aplicar_limpiezas (tipos_limpieza req) (df, [], 0) of
                       Inl e \<Rightarrow> R500 e
                     | Inr (df', ops, tot) \<Rightarrow> R200 df' (make_report df' ops tot))))"

section \<open>Reference notions and sample data\<close>

text \<open>The parameters as the caller sent them, one entry per step that leaves a record:
  a bare string carries no parameters.\<close>

fun parametros_recibidos :: "limpieza list \<Rightarrow> params list" where
  "parametros_recibidos [] = []"
| "parametros_recibidos (Other # ls) = parametros_recibidos ls"
| "parametros_recibidos (Str s # ls) = no_params # parametros_recibidos ls"
| "parametros_recibidos (Dict t p # ls) = p # parametros_recibidos ls"

text \<open>The outlier test in the words of the specification: with the quartiles \<open>Q1\<close> and
  \<open>Q3\<close> of the column's current values and \<open>IQR = Q3 - Q1\<close>, a value is kept when it lies
  in \<open>[Q1 - umbral \<sqdot> IQR, Q3 + umbral \<sqdot> IQR]\<close>. The filter of one column keeps the rows
  that pass the test in that column; it applies to a numeric column of the frame.\<close>

definition in_bounds :: "rat \<Rightarrow> cell list \<Rightarrow> cell \<Rightarrow> bool" where
  "in_bounds u xs x =
     (case (x, quantile xs (1 / 4), quantile xs (3 / 4)) of
        (Num v, Some Q1, Some Q3) \<Rightarrow> Q1 - u * (Q3 - Q1) \<le> v \<and> v \<le> Q3 + u * (Q3 - Q1)
      | _ \<Rightarrow> False)"

definition filter_column :: "rat \<Rightarrow> table \<Rightarrow> string \<Rightarrow> table" where
  "filter_column u df col =
     (case getcol df col of
        None \<Rightarrow> df
      | Some c \<Rightarrow>
          if is_numeric c then take_mask (map (in_bounds u (cells c)) (cells c)) df else df)"

text \<open>A small frame: a numeric column with one far value, a text column with one
  missing cell.\<close>

definition tabla_ejemplo :: table where
  "tabla_ejemplo =
     [\<lparr>name = ''a'', dtype = Int64, cells = [Num 1, Num 2, Num 3, Num 4, Num 100]\<rparr>,
      \<lparr>name = ''b'', dtype = Object,
       cells = [Txt ''x'', Txt ''y'', Missing, Txt ''x'', Txt ''x'']\<rparr>]"


text \<open>A frame with a missing cell in a numeric column and in a text column.\<close>

definition tabla_nulos :: table where
  "tabla_nulos =
     [\<lparr>name = ''x'', dtype = Float64, cells = [Num 1, Missing, Num 3]\<rparr>,
      \<lparr>name = ''y'', dtype = Object, cells = [Txt ''p'', Missing, Txt ''q'']\<rparr>]"

text \<open>A frame whose second row repeats the first.\<close>

definition tabla_duplicados :: table where
  "tabla_duplicados =
     [\<lparr>name = ''a'', dtype = Int64, cells = [Num 1, Num 1, Num 999]\<rparr>,
      \<lparr>name = ''b'', dtype = Int64, cells = [Num 2, Num 2, Num 3]\<rparr>]"


text \<open>A catalogue with the sample frames.\<close>

definition datasets_ejemplo :: "int \<Rightarrow> table option" where
  "datasets_ejemplo i =
     (if i = 1 then Some tabla_ejemplo
      else if i = 2 then Some tabla_nulos
      else if i = 3 then Some tabla_duplicados
      else None)"

section \<open>Boolean indexing\<close>

lemma select_Nil [simp]: "select keep [] = []" "select [] xs = []"
  by (simp_all add: select_def)

lemma select_Cons [simp]:
  "select (b # bs) (x # xs) = (if b then x # select bs xs else select bs xs)"
  by (simp add: select_def)

lemma length_select:
  "length keep = length xs \<Longrightarrow> length (select keep xs) = length (filter id keep)"
  by (induction keep xs rule: list_induct2) auto

lemma length_select_take:
  "length (select keep xs) = length (filter id (take (length xs) keep))"
proof (induction xs arbitrary: keep)
  case Nil then show ?case by simp
next
  case (Cons x xs) then show ?case by (cases keep) auto
qed

lemma select_map: "select keep (map f xs) = map f (select keep xs)"
proof (induction xs arbitrary: keep)
  case Nil then show ?case by simp
next
  case (Cons x xs) then show ?case by (cases keep) auto
qed


lemma upt_0_Suc: "[0..<Suc n] = 0 # map Suc [0..<n]"
  by (metis map_Suc_upt upt_conv_Cons zero_less_Suc)

lemma select_nth:
  "length keep = length xs \<Longrightarrow>
   select keep xs = map ((!) xs) (filter ((!) keep) [0..<length xs])"
proof (induction keep xs rule: list_induct2)
  case Nil then show ?case by simp
next
  case (Cons b bs x xs)
  have "filter ((!) (b # bs)) [0..<Suc (length xs)]
        = (if b then [0] else []) @ map Suc (filter ((!) bs) [0..<length xs])"
    unfolding upt_0_Suc by (simp add: filter_map o_def)
  then show ?case using Cons by (simp add: o_def del: upt_Suc)
qed

lemma columns_take_mask [simp]: "columns (take_mask keep df) = columns df"
  by (simp add: columns_def take_mask_def o_def)

lemma uniform_take_mask: "uniform df \<Longrightarrow> uniform (take_mask keep df)"
  by (cases df) (auto simp: uniform_def take_mask_def list_all_iff length_select_take)

lemma uniform_cells: "uniform df \<Longrightarrow> c \<in> set df \<Longrightarrow> length (cells c) = len df"
  by (simp add: uniform_def list_all_iff)

lemma len_take_mask:
  "uniform df \<Longrightarrow> length keep = len df \<Longrightarrow>
   len (take_mask keep df) = (if df = [] then 0 else length (filter id keep))"
  by (cases df) (auto simp: take_mask_def length_select)

lemma map_upt_nth: "map (\<lambda>i. f (ks ! i)) [0..<length ks] = map f ks"
  by (rule nth_equalityI) simp_all

lemma rows_take_mask:
  assumes "uniform df" "length keep = len df"
  shows "rows (take_mask keep df) = select keep (rows df)"
proof (cases "df = []")
  case True then show ?thesis by (simp add: rows_def take_mask_def)
next
  case False
  let ?ks = "filter ((!) keep) [0..<len df]"
  have sel: "select keep (cells c) = map ((!) (cells c)) ?ks" if "c \<in> set df" for c
    using select_nth [of keep "cells c"] uniform_cells [OF assms(1) that] assms(2) by simp
  have L: "len (take_mask keep df) = length ?ks"
    using False sel by (cases df) (auto simp: take_mask_def)
  have "rows (take_mask keep df) = map (\<lambda>i. map (\<lambda>c. cells c ! (?ks ! i)) df) [0..<length ?ks]"
  proof -
    have "row (take_mask keep df) i = map (\<lambda>c. cells c ! (?ks ! i)) df"
      if "i < length ?ks" for i
      using sel that by (simp add: row_def take_mask_def o_def)
    then show ?thesis by (simp add: rows_def L)
  qed
  also have "\<dots> = map (\<lambda>k. map (\<lambda>c. cells c ! k) df) ?ks"
    by (rule map_upt_nth)
  also have "\<dots> = select keep (rows df)"
    using select_nth [of keep "rows df"] assms(2) by (simp add: rows_def row_def del: upt_Suc)
  finally show ?thesis .
qed

section \<open>The report\<close>

lemma aplicar_limpiezas_parametros:
  "aplicar_limpiezas ls (df, ops, tot) = Inr (df', ops', tot') \<Longrightarrow>
   map parametros ops' = map parametros ops @ parametros_recibidos ls"
proof (induction ls arbitrary: df ops tot)
  case Nil then show ?case by simp
next
  case (Cons l ls)
  show ?case
  proof (cases l)
    case (Str s)
    with Cons.prems obtain d a where
      "aplicar (Some s) no_params df = Inr (d, a)"
      "aplicar_limpiezas ls
         (d, ops @ [\<lparr>tipo = Some s, parametros = no_params, afectados = a\<rparr>], tot + a)
         = Inr (df', ops', tot')"
      by (auto split: sum.splits)
    from Cons.IH [OF this(2)] Str show ?thesis by simp
  next
    case (Dict t p)
    with Cons.prems obtain d a where
      "aplicar t p df = Inr (d, a)"
      "aplicar_limpiezas ls
         (d, ops @ [\<lparr>tipo = t, parametros = p, afectados = a\<rparr>], tot + a)
         = Inr (df', ops', tot')"
      by (auto split: sum.splits)
    from Cons.IH [OF this(2)] Dict show ?thesis by simp
  next
    case Other
    with Cons show ?thesis by simp
  qed
qed

lemma ejemplo_outliers:
  "limpiar_dataset_multiple datasets_ejemplo
     \<lparr>dataset_id = Some 1, tipos_limpieza = [Str ''outliers'']\<rparr>
   = R200
      [\<lparr>name = ''a'', dtype = Int64, cells = [Num 1, Num 2, Num 3, Num 4]\<rparr>,
       \<lparr>name = ''b'', dtype = Object, cells = [Txt ''x'', Txt ''y'', Missing, Txt ''x'']\<rparr>]
      \<lparr>total_afectados = 1,
       operaciones = [\<lparr>tipo = Some ''outliers'', parametros = no_params, afectados = 1\<rparr>],
       cleaned_preview =
         [[Num 1, Txt ''x''], [Num 2, Txt ''y''], [Num 3, Missing], [Num 4, Txt ''x'']],
       total_filas = 4, total_columnas = 2, nulls = 1, duplicados = 0, outliers = 0\<rparr>"
  by code_simp

lemma ejemplo_nulos:
  "limpiar_dataset_multiple datasets_ejemplo
     \<lparr>dataset_id = Some 1, tipos_limpieza = [Dict (Some ''nulos'') no_params]\<rparr>
   = R200
      [\<lparr>name = ''a'', dtype = Int64, cells = [Num 1, Num 2, Num 4, Num 100]\<rparr>,
       \<lparr>name = ''b'', dtype = Object, cells = [Txt ''x'', Txt ''y'', Txt ''x'', Txt ''x'']\<rparr>]
      \<lparr>total_afectados = 1,
       operaciones =
         [\<lparr>tipo = Some ''nulos'',
           parametros = \<lparr>metodo = None, columnas = None, umbral = None\<rparr>,
           afectados = 1\<rparr>],
       cleaned_preview =
         [[Num 1, Txt ''x''], [Num 2, Txt ''y''], [Num 4, Txt ''x''], [Num 100, Txt ''x'']],
       total_filas = 4, total_columnas = 2, nulls = 0, duplicados = 0, outliers = 0\<rparr>"
  by code_simp

section \<open>The shape of the frame\<close>

lemma length_ffill_from [simp]: "length (ffill_from prev xs) = length xs"
  by (induction xs arbitrary: prev) auto

lemma shape_map_cells:
  assumes "uniform df" "\<And>c. c \<in> set df \<Longrightarrow> name (f c) = name c \<and> length (cells (f c)) = length (cells c)"
  shows "uniform (map f df) \<and> columns (map f df) = columns df \<and> len (map f df) = len df"
proof (cases df)
  case Nil then show ?thesis by (simp add: uniform_def columns_def)
next
  case (Cons c cs)
  have L: "len (map f df) = len df" using Cons assms(2) by simp
  have "uniform (map f df)"
    unfolding uniform_def L using assms by (auto simp: list_all_iff uniform_def)
  moreover have "columns (map f df) = columns df"
    using assms(2) by (simp add: columns_def)
  ultimately show ?thesis using L by simp
qed

lemma shape_fillna_method:
  "uniform df \<Longrightarrow> uniform (fillna_method m df) \<and> columns (fillna_method m df) = columns df
     \<and> len (fillna_method m df) = len df"
  unfolding fillna_method_def by (rule shape_map_cells) (auto simp: ffill_def bfill_def)

lemma shape_fillna_mean:
  "uniform df \<Longrightarrow> uniform (fillna_mean df) \<and> columns (fillna_mean df) = columns df
     \<and> len (fillna_mean df) = len df"
  unfolding fillna_mean_def by (rule shape_map_cells) auto

lemma getcol_Some: "getcol df col = Some c \<Longrightarrow> c \<in> set df \<and> name c = col"
  unfolding getcol_def by (auto simp: find_Some_iff)


lemma shape_setcol:
  "uniform df \<Longrightarrow> name c' = col \<Longrightarrow> length (cells c') = len df \<Longrightarrow>
   uniform (setcol col c' df) \<and> columns (setcol col c' df) = columns df
     \<and> len (setcol col c' df) = len df"
  unfolding setcol_def by (rule shape_map_cells) (auto simp: uniform_cells)

lemma shape_outliers_cols:
  "uniform df \<Longrightarrow> outliers_cols u cols df = Inr df' \<Longrightarrow>
   uniform df' \<and> columns df' = columns df"
proof (induction cols arbitrary: df)
  case Nil then show ?case by simp
next
  case (Cons col cols)
  then show ?case
    by (auto simp: Let_def uniform_take_mask split: option.splits if_splits
        dest!: Cons.IH [rotated])
qed

lemma shape_normalizacion_cols:
  "uniform df \<Longrightarrow> normalizacion_cols cols df = Inr df' \<Longrightarrow>
   uniform df' \<and> columns df' = columns df \<and> len df' = len df"
proof (induction cols arbitrary: df)
  case Nil then show ?case by simp
next
  case (Cons col cols)
  show ?case
  proof (cases "getcol df col")
    case None with Cons.prems show ?thesis by simp
  next
    case (Some c)
    let ?c' = "c\<lparr>dtype := Float64, cells := map (rescale (min_val (cells c)) (max_val (cells c))) (cells c)\<rparr>"
    have S: "uniform (setcol col ?c' df) \<and> columns (setcol col ?c' df) = columns df
        \<and> len (setcol col ?c' df) = len df"
      using getcol_Some [OF Some] Cons.prems(1) by (intro shape_setcol) (auto simp: uniform_cells)
    show ?thesis
    proof (cases "is_numeric c \<and> py_ne (max_val (cells c)) (min_val (cells c))")
      case True
      with Cons.prems Some have "normalizacion_cols cols (setcol col ?c' df) = Inr df'"
        by (simp add: Let_def)
      from Cons.IH [OF _ this] S show ?thesis by simp
    next
      case False
      with Cons.prems Some have "normalizacion_cols cols df = Inr df'"
        by (auto simp: Let_def split: if_splits)
      from Cons.IH [OF Cons.prems(1) this] show ?thesis .
    qed
  qed
qed

lemma shape_aplicar:
  assumes "uniform df" "aplicar t p df = Inr (df', a)"
  shows "uniform df' \<and> columns df' = columns df"
proof -
  consider (dup) "t = Some ''duplicados''" | (nul) "t = Some ''nulos''"
    | (out) "t = Some ''outliers''" | (nor) "t = Some ''normalizacion''"
    | (unk) "t \<noteq> Some ''duplicados''" "t \<noteq> Some ''nulos''" "t \<noteq> Some ''outliers''"
        "t \<noteq> Some ''normalizacion''"
    by blast
  then show ?thesis
  proof cases
    case dup
    with assms show ?thesis
      by (auto simp: aplicar_def Let_def drop_duplicates_def uniform_take_mask)
  next
    case nul
    with assms show ?thesis
      using shape_fillna_method [OF assms(1)] shape_fillna_mean [OF assms(1)]
      by (auto simp: aplicar_def Let_def dropna_def uniform_take_mask split: if_splits)
  next
    case out
    with assms show ?thesis
      by (auto simp: aplicar_def Let_def split: sum.splits dest: shape_outliers_cols)
  next
    case nor
    with assms show ?thesis
      by (auto simp: aplicar_def Let_def split: sum.splits dest: shape_normalizacion_cols)
  next
    case unk
    with assms show ?thesis by (simp add: aplicar_def)
  qed
qed

lemma aplicar_limpiezas_append:
  "aplicar_limpiezas (ls1 @ ls2) st =
     (case aplicar_limpiezas ls1 st of Inl e \<Rightarrow> Inl e | Inr st1 \<Rightarrow> aplicar_limpiezas ls2 st1)"
proof (induction ls1 st rule: aplicar_limpiezas.induct)
  case (1 st) then show ?case by simp
next
  case (2 ls st) then show ?case by simp
next
  case (3 s ls df ops tot) then show ?case by (simp split: sum.splits prod.splits)
next
  case (4 t p ls df ops tot) then show ?case by (simp split: sum.splits prod.splits)
qed

lemma shape_aplicar_limpiezas:
  "uniform df \<Longrightarrow> aplicar_limpiezas ls (df, ops, tot) = Inr (df', ops', tot') \<Longrightarrow>
   uniform df' \<and> columns df' = columns df"
proof (induction ls arbitrary: df ops tot)
  case Nil then show ?case by simp
next
  case (Cons l ls)
  show ?case
  proof (cases l)
    case (Str s)
    with Cons.prems obtain d a where
      A: "aplicar (Some s) no_params df = Inr (d, a)" and
      B: "aplicar_limpiezas ls
         (d, ops @ [\<lparr>tipo = Some s, parametros = no_params, afectados = a\<rparr>], tot + a)
         = Inr (df', ops', tot')"
      by (auto split: sum.splits)
    from shape_aplicar [OF Cons.prems(1) A] Cons.IH [OF _ B] show ?thesis by simp
  next
    case (Dict t p)
    with Cons.prems obtain d a where
      A: "aplicar t p df = Inr (d, a)" and
      B: "aplicar_limpiezas ls
         (d, ops @ [\<lparr>tipo = t, parametros = p, afectados = a\<rparr>], tot + a)
         = Inr (df', ops', tot')"
      by (auto split: sum.splits)
    from shape_aplicar [OF Cons.prems(1) A] Cons.IH [OF _ B] show ?thesis by simp
  next
    case Other
    with Cons show ?thesis by simp
  qed
qed

section \<open>Columns that are not in the frame\<close>




section \<open>Filling with the mean\<close>

lemma fill_cell_Missing: "fill_cell m x = (if x = Missing then to_cell m else x)"
  by (cases m; cases x) simp_all

lemma mean_steps:
  "\<forall>l \<in> set ls. \<exists>q. l = Dict (Some ''nulos'') q \<and> metodo q = Some ''mean'' \<Longrightarrow>
   \<exists>df' ops'. aplicar_limpiezas ls (df, ops, tot) = Inr (df', ops', tot) \<and> len df' = len df"
proof (induction ls arbitrary: df ops)
  case Nil then show ?case by simp
next
  case (Cons l ls)
  then obtain q where l: "l = Dict (Some ''nulos'') q" "metodo q = Some ''mean''" by auto
  have L: "len (fillna_mean df) = len df" by (cases df) (simp_all add: fillna_mean_def)
  from Cons.IH [of "fillna_mean df"
      "ops @ [\<lparr>tipo = Some ''nulos'', parametros = q, afectados = 0\<rparr>]"] Cons.prems
  obtain df' ops' where
    "aplicar_limpiezas ls
       (fillna_mean df, ops @ [\<lparr>tipo = Some ''nulos'', parametros = q, afectados = 0\<rparr>], tot)
     = Inr (df', ops', tot)" "len df' = len (fillna_mean df)" by auto
  with l L show ?case by (simp add: aplicar_def)
qed

section \<open>The outlier filter\<close>



lemma columns_filter_column [simp]: "columns (filter_column u df col) = columns df"
  by (simp add: filter_column_def split: option.split)


lemma select_dtypes_subset: "set (select_dtypes df) \<subseteq> set (columns df)"
  by (auto simp: select_dtypes_def columns_def)


lemma in_bounds_Missing [simp]: "\<not> in_bounds u xs Missing"
  by (simp add: in_bounds_def)







section \<open>Duplicated rows\<close>

lemma length_duplicated_from [simp]: "length (duplicated_from seen rs) = length rs"
  by (induction rs arbitrary: seen) auto

lemma length_rows [simp]: "length (rows df) = len df"
  by (simp add: rows_def)

lemma duplicated_from_nth:
  "i < length rs \<Longrightarrow> duplicated_from seen rs ! i = (rs ! i \<in> set seen \<union> set (take i rs))"
proof (induction rs arbitrary: seen i)
  case Nil then show ?case by simp
next
  case (Cons r rs)
  then show ?case by (cases i) auto
qed

lemma in_take_iff: "i < length rs \<Longrightarrow> (rs ! i \<in> set (take i rs)) = (\<exists>j<i. rs ! j = rs ! i)"
  by (auto simp: in_set_conv_nth) 

lemma first_occurrences:
  "select (map Not (duplicated_from [] rs)) rs
     = map ((!) rs) (filter (\<lambda>i. \<not> (\<exists>j<i. rs ! j = rs ! i)) [0..<length rs])"
proof -
  have "filter ((!) (map Not (duplicated_from [] rs))) [0..<length rs]
      = filter (\<lambda>i. \<not> (\<exists>j<i. rs ! j = rs ! i)) [0..<length rs]"
    by (rule filter_cong) (simp_all add: duplicated_from_nth in_take_iff)
  then show ?thesis
    using select_nth [of "map Not (duplicated_from [] rs)" rs] by simp
qed

lemma count_true: "length (filter id bs) = length (filter ((!) bs) [0..<length bs])"
proof -
  have "length (filter id bs) = length (select bs bs)" by (simp add: length_select)
  also have "\<dots> = length (map ((!) bs) (filter ((!) bs) [0..<length bs]))"
    using select_nth [of bs bs] by simp
  finally show ?thesis by simp
qed

lemma count_duplicated:
  "length (filter id (duplicated_from [] rs))
     = length (filter (\<lambda>i. \<exists>j<i. rs ! j = rs ! i) [0..<length rs])"
proof -
  have "filter ((!) (duplicated_from [] rs)) [0..<length rs]
      = filter (\<lambda>i. \<exists>j<i. rs ! j = rs ! i) [0..<length rs]"
    by (rule filter_cong) (simp_all add: duplicated_from_nth in_take_iff)
  then show ?thesis using count_true [of "duplicated_from [] rs"] by simp
qed

lemma firsts_set_distinct:
  "set (select (map Not (duplicated_from seen rs)) rs) = set rs - set seen
   \<and> distinct (select (map Not (duplicated_from seen rs)) rs)"
  by (induction rs arbitrary: seen) auto

lemma duplicated_from_distinct:
  "distinct rs \<Longrightarrow> set rs \<inter> set seen = {} \<Longrightarrow>
   duplicated_from seen rs = replicate (length rs) False"
  by (induction rs arbitrary: seen) auto

lemma select_all: "select (replicate (length xs) True) xs = xs"
  by (induction xs) auto

lemma take_mask_all: "uniform df \<Longrightarrow> take_mask (replicate (len df) True) df = df"
proof -
  assume u: "uniform df"
  have "c\<lparr>cells := select (replicate (len df) True) (cells c)\<rparr> = c" if "c \<in> set df" for c
    using uniform_cells [OF u that] select_all [of "cells c"] by simp
  then show ?thesis unfolding take_mask_def by (simp add: map_idI)
qed

lemma rows_drop_duplicates:
  "uniform df \<Longrightarrow>
   rows (drop_duplicates df) = select (map Not (duplicated_from [] (rows df))) (rows df)"
  by (simp add: drop_duplicates_def duplicated_def rows_take_mask)

lemma drop_duplicates_twice:
  assumes "uniform df"
  shows "drop_duplicates (drop_duplicates df) = drop_duplicates df"
proof -
  let ?d = "drop_duplicates df"
  have u: "uniform ?d" using assms by (simp add: drop_duplicates_def uniform_take_mask)
  have "distinct (rows ?d)"
    using firsts_set_distinct [of "[]" "rows df"] rows_drop_duplicates [OF assms] by simp
  then have "duplicated ?d = replicate (len ?d) False"
    using duplicated_from_distinct [of "rows ?d" "[]"] by (simp add: duplicated_def)
  then have "drop_duplicates ?d = take_mask (replicate (len ?d) True) ?d"
    by (simp add: drop_duplicates_def)
  then show ?thesis using take_mask_all [OF u] by simp
qed

lemma len_drop_duplicates:
  assumes "uniform df"
  shows "int (len df) - int (len (drop_duplicates df))
     = int (length (filter (\<lambda>i. \<exists>j<i. rows df ! j = rows df ! i) [0..<len df]))"
proof (cases "df = []")
  case True
  then show ?thesis by (simp add: drop_duplicates_def take_mask_def)
next
  case False
  let ?dup = "duplicated df"
  have L: "length (map Not ?dup) = len df" by (simp add: duplicated_def)
  have "len (drop_duplicates df) = length (filter id (map Not ?dup))"
    unfolding drop_duplicates_def using len_take_mask [OF assms L] False by simp
  also have "\<dots> = length (filter (\<lambda>b. \<not> id b) ?dup)" by (simp add: filter_map o_def)
  finally have "len (drop_duplicates df) + length (filter id ?dup) = len df"
    using sum_length_filter_compl [of id ?dup] L by simp
  then show ?thesis
    using count_duplicated [of "rows df"] by (simp add: duplicated_def)
qed

section \<open>Rescaling to the unit interval\<close>

lemma name_norm_col [simp]: "name (norm_col c) = name c"
  by (simp add: norm_col_def)

lemma length_norm_col [simp]: "length (cells (norm_col c)) = length (cells c)"
  by (simp add: norm_col_def)

lemma rescale_Num [simp]: "rescale (Some mn) (Some mx) (Num v) = Num ((v - mn) / (mx - mn))"
  by (simp add: rescale_def)


lemma rescale_None [simp]: "rescale None mx x = Missing"
  by (cases x; cases mx) (simp_all add: rescale_def)


lemma nums_all_Missing [simp]: "nums (map (\<lambda>x. Missing) xs) = []"
  by (induction xs) simp_all












section \<open>The claims\<close>

text \<open>
  Claim C2, as amended. A request whose list of steps is empty is answered with status
  400, whatever the dataset: the guard of line 162 rejects it before anything is read or
  cleaned. Only the loop of lines 193 to 247, taken alone, leaves the frame as it is and
  the total at 0 when there is no step.
\<close>

theorem empty_list_rejected:
  "limpiar_dataset_multiple datasets \<lparr>dataset_id = d, tipos_limpieza = []\<rparr> = R400
   \<and> aplicar_limpiezas [] (df, [], 0) = Inr (df, [], 0)"
  by (simp add: limpiar_dataset_multiple_def split: option.split)

text \<open>The claim as stated fails: for the sample dataset the empty list gives status 400,
  not the frame with a total of 0.\<close>

theorem empty_list_counterexample:
  "limpiar_dataset_multiple datasets_ejemplo \<lparr>dataset_id = Some 1, tipos_limpieza = []\<rparr>
   = R400"
  by (simp add: limpiar_dataset_multiple_def)

text \<open>
  Claim C4, as amended. Every record of the report carries the parameters exactly as the
  caller sent them: a parameter that was left out is absent from the record as well,
  although its default is the one applied.
\<close>

theorem parametros_as_supplied:
  "limpiar_dataset_multiple datasets req = R200 df rep \<Longrightarrow>
   map parametros (operaciones rep) = parametros_recibidos (tipos_limpieza req)"
  by (auto simp: limpiar_dataset_multiple_def make_report_def
      split: option.splits if_splits sum.splits dest: aplicar_limpiezas_parametros)

theorem parametros_as_supplied_witness:
  "limpiar_dataset_multiple datasets_ejemplo
     \<lparr>dataset_id = Some 1, tipos_limpieza = [Str ''outliers'']\<rparr>
   = R200
      [\<lparr>name = ''a'', dtype = Int64, cells = [Num 1, Num 2, Num 3, Num 4]\<rparr>,
       \<lparr>name = ''b'', dtype = Object, cells = [Txt ''x'', Txt ''y'', Missing, Txt ''x'']\<rparr>]
      \<lparr>total_afectados = 1,
       operaciones = [\<lparr>tipo = Some ''outliers'', parametros = no_params, afectados = 1\<rparr>],
       cleaned_preview =
         [[Num 1, Txt ''x''], [Num 2, Txt ''y''], [Num 3, Missing], [Num 4, Txt ''x'']],
       total_filas = 4, total_columnas = 2, nulls = 1, duplicados = 0, outliers = 0\<rparr>
   \<and> map parametros
        [\<lparr>tipo = Some ''outliers'', parametros = no_params, afectados = 1\<rparr>]
      = parametros_recibidos [Str ''outliers'']"
  using parametros_as_supplied [OF ejemplo_outliers] ejemplo_outliers by simp

text \<open>The claim as stated fails: the step \<open>nulos\<close> sent without \<open>metodo\<close> drops the row
  with the missing cell (the default \<open>drop\<close> is applied, one row is affected), and the
  record in the report has no \<open>metodo\<close>.\<close>

theorem parametros_counterexample:
  "limpiar_dataset_multiple datasets_ejemplo
     \<lparr>dataset_id = Some 1, tipos_limpieza = [Dict (Some ''nulos'') no_params]\<rparr>
   = R200
      [\<lparr>name = ''a'', dtype = Int64, cells = [Num 1, Num 2, Num 4, Num 100]\<rparr>,
       \<lparr>name = ''b'', dtype = Object, cells = [Txt ''x'', Txt ''y'', Txt ''x'', Txt ''x'']\<rparr>]
      \<lparr>total_afectados = 1,
       operaciones =
         [\<lparr>tipo = Some ''nulos'',
           parametros = \<lparr>metodo = None, columnas = None, umbral = None\<rparr>,
           afectados = 1\<rparr>],
       cleaned_preview =
         [[Num 1, Txt ''x''], [Num 2, Txt ''y''], [Num 4, Txt ''x''], [Num 100, Txt ''x'']],
       total_filas = 4, total_columnas = 2, nulls = 0, duplicados = 0, outliers = 0\<rparr>"
  by (rule ejemplo_nulos)

text \<open>
  Claim C9. The field \<open>outliers\<close> of the statistics in the report is 0 for every dataset
  and every list of steps, also when the step \<open>outliers\<close> removed rows.
\<close>

theorem outliers_stat_zero:
  "limpiar_dataset_multiple datasets req = R200 df rep \<Longrightarrow> outliers rep = 0"
  by (auto simp: limpiar_dataset_multiple_def make_report_def
      split: option.splits if_splits sum.splits)

theorem outliers_stat_zero_witness:
  "limpiar_dataset_multiple datasets_ejemplo
     \<lparr>dataset_id = Some 1, tipos_limpieza = [Str ''outliers'']\<rparr>
   = R200
      [\<lparr>name = ''a'', dtype = Int64, cells = [Num 1, Num 2, Num 3, Num 4]\<rparr>,
       \<lparr>name = ''b'', dtype = Object, cells = [Txt ''x'', Txt ''y'', Missing, Txt ''x'']\<rparr>]
      \<lparr>total_afectados = 1,
       operaciones = [\<lparr>tipo = Some ''outliers'', parametros = no_params, afectados = 1\<rparr>],
       cleaned_preview =
         [[Num 1, Txt ''x''], [Num 2, Txt ''y''], [Num 3, Missing], [Num 4, Txt ''x'']],
       total_filas = 4, total_columnas = 2, nulls = 1, duplicados = 0, outliers = 0\<rparr>
   \<and> outliers
        \<lparr>total_afectados = 1,
         operaciones = [\<lparr>tipo = Some ''outliers'', parametros = no_params, afectados = 1\<rparr>],
         cleaned_preview =
           [[Num 1, Txt ''x''], [Num 2, Txt ''y''], [Num 3, Missing], [Num 4, Txt ''x'']],
         total_filas = 4, total_columnas = 2, nulls = 1, duplicados = 0, outliers = 0\<rparr>
      = (0 :: nat)"
  using outliers_stat_zero [OF ejemplo_outliers] ejemplo_outliers by simp

text \<open>
  Claim C8. On a frame whose columns all have one cell per row, every step (the four named
  kinds with each \<open>metodo\<close>, and an unknown kind) that returns leaves the column names as
  they were and the columns of equal length; so does the loop after any prefix of the
  requested steps, that is at every intermediate state.
\<close>

theorem shape_invariant:
  assumes "uniform df"
  shows "(aplicar t p df = Inr (df', a) \<longrightarrow> uniform df' \<and> columns df' = columns df)
    \<and> (aplicar_limpiezas (ls1 @ ls2) (df, ops, tot) = Inr r \<longrightarrow>
         (\<exists>df1 ops1 tot1. aplicar_limpiezas ls1 (df, ops, tot) = Inr (df1, ops1, tot1)
            \<and> uniform df1 \<and> columns df1 = columns df))"
proof (intro conjI impI)
  assume "aplicar t p df = Inr (df', a)"
  from shape_aplicar [OF assms this] show "uniform df'" "columns df' = columns df" by simp_all
next
  assume "aplicar_limpiezas (ls1 @ ls2) (df, ops, tot) = Inr r"
  then obtain df1 ops1 tot1 where "aplicar_limpiezas ls1 (df, ops, tot) = Inr (df1, ops1, tot1)"
    by (auto simp: aplicar_limpiezas_append split: sum.splits)
  with shape_aplicar_limpiezas [OF assms this] show
    "\<exists>df1 ops1 tot1. aplicar_limpiezas ls1 (df, ops, tot) = Inr (df1, ops1, tot1)
            \<and> uniform df1 \<and> columns df1 = columns df" by blast
qed

theorem shape_invariant_witness:
  "uniform tabla_ejemplo
   \<and> aplicar (Some ''outliers'') no_params tabla_ejemplo
       = Inr ([\<lparr>name = ''a'', dtype = Int64, cells = [Num 1, Num 2, Num 3, Num 4]\<rparr>,
              \<lparr>name = ''b'', dtype = Object, cells = [Txt ''x'', Txt ''y'', Missing, Txt ''x'']\<rparr>], 1)
   \<and> uniform [\<lparr>name = ''a'', dtype = Int64, cells = [Num 1, Num 2, Num 3, Num 4]\<rparr>,
              \<lparr>name = ''b'', dtype = Object, cells = [Txt ''x'', Txt ''y'', Missing, Txt ''x'']\<rparr>]
   \<and> columns [\<lparr>name = ''a'', dtype = Int64, cells = [Num 1, Num 2, Num 3, Num 4]\<rparr>,
              \<lparr>name = ''b'', dtype = Object, cells = [Txt ''x'', Txt ''y'', Missing, Txt ''x'']\<rparr>]
       = columns tabla_ejemplo
   \<and> aplicar_limpiezas ([Str ''outliers''] @ [Str ''nulos'']) (tabla_ejemplo, [], 0)
       = Inr ([\<lparr>name = ''a'', dtype = Int64, cells = [Num 1, Num 2, Num 4]\<rparr>,
              \<lparr>name = ''b'', dtype = Object, cells = [Txt ''x'', Txt ''y'', Txt ''x'']\<rparr>],
             [\<lparr>tipo = Some ''outliers'', parametros = no_params, afectados = 1\<rparr>,
              \<lparr>tipo = Some ''nulos'', parametros = no_params, afectados = 1\<rparr>], 2)
   \<and> (\<exists>df1 ops1 tot1.
         aplicar_limpiezas [Str ''outliers''] (tabla_ejemplo, [], 0) = Inr (df1, ops1, tot1)
         \<and> uniform df1 \<and> columns df1 = columns tabla_ejemplo)"
proof -
  have u: "uniform tabla_ejemplo" by code_simp
  have a: "aplicar (Some ''outliers'') no_params tabla_ejemplo
       = Inr ([\<lparr>name = ''a'', dtype = Int64, cells = [Num 1, Num 2, Num 3, Num 4]\<rparr>,
              \<lparr>name = ''b'', dtype = Object, cells = [Txt ''x'', Txt ''y'', Missing, Txt ''x'']\<rparr>], 1)"
    by code_simp
  have b: "aplicar_limpiezas ([Str ''outliers''] @ [Str ''nulos'']) (tabla_ejemplo, [], 0)
       = Inr ([\<lparr>name = ''a'', dtype = Int64, cells = [Num 1, Num 2, Num 4]\<rparr>,
              \<lparr>name = ''b'', dtype = Object, cells = [Txt ''x'', Txt ''y'', Txt ''x'']\<rparr>],
             [\<lparr>tipo = Some ''outliers'', parametros = no_params, afectados = 1\<rparr>,
              \<lparr>tipo = Some ''nulos'', parametros = no_params, afectados = 1\<rparr>], 2)"
    by code_simp
  note s = shape_invariant [OF u, of "Some ''outliers''" no_params _ _ "[Str ''outliers'']"
      "[Str ''nulos'']" "[]" 0]
  from s [THEN conjunct1, rule_format, OF a] s [THEN conjunct2, rule_format, OF b] u a b
  show ?thesis by blast
qed




text \<open>
  Claim C6. The step \<open>nulos\<close> with \<open>metodo = mean\<close> returns with \<open>afectados = 0\<close> and the
  same number of rows. In the result every column keeps its name, type and length; a
  missing cell of a numeric column holds the mean of the numbers of that column (it stays
  missing when the column has no number, where pandas' mean is NaN), and every other cell,
  so every cell of a column that is not numeric, is unchanged. A request made only of such
  steps is answered with status 200, \<open>total_filas\<close> equal to the number of rows of the
  dataset and a total of 0.
\<close>

theorem nulos_mean:
  assumes "metodo p = Some ''mean''"
  shows "aplicar (Some ''nulos'') p df = Inr (fillna_mean df, 0)
    \<and> len (fillna_mean df) = len df
    \<and> length (fillna_mean df) = length df
    \<and> (\<forall>k < length df.
          name (fillna_mean df ! k) = name (df ! k)
        \<and> dtype (fillna_mean df ! k) = dtype (df ! k)
        \<and> length (cells (fillna_mean df ! k)) = length (cells (df ! k))
        \<and> (\<forall>j < length (cells (df ! k)).
              cells (fillna_mean df ! k) ! j =
                (if is_numeric (df ! k) \<and> cells (df ! k) ! j = Missing
                 then (if nums (cells (df ! k)) = [] then Missing
                       else Num (sum_list (nums (cells (df ! k)))
                                  / of_nat (length (nums (cells (df ! k))))))
                 else cells (df ! k) ! j)))
    \<and> (ls \<noteq> [] \<and> (\<forall>l \<in> set ls. \<exists>q. l = Dict (Some ''nulos'') q \<and> metodo q = Some ''mean'')
         \<and> i \<noteq> 0 \<and> datasets i = Some df \<longrightarrow>
       (\<exists>df' rep. limpiar_dataset_multiple datasets \<lparr>dataset_id = Some i, tipos_limpieza = ls\<rparr>
            = R200 df' rep
          \<and> total_filas rep = len df \<and> total_afectados rep = 0))"
proof (intro conjI allI impI)
  show "aplicar (Some ''nulos'') p df = Inr (fillna_mean df, 0)"
    using assms by (simp add: aplicar_def)
  show "len (fillna_mean df) = len df" by (cases df) (simp_all add: fillna_mean_def)
  show "length (fillna_mean df) = length df" by (simp add: fillna_mean_def)
next
  fix k assume "k < length df"
  then show "name (fillna_mean df ! k) = name (df ! k)"
    "dtype (fillna_mean df ! k) = dtype (df ! k)"
    "length (cells (fillna_mean df ! k)) = length (cells (df ! k))"
    by (simp_all add: fillna_mean_def)
next
  fix k j assume "k < length df" "j < length (cells (df ! k))"
  then show "cells (fillna_mean df ! k) ! j =
                (if is_numeric (df ! k) \<and> cells (df ! k) ! j = Missing
                 then (if nums (cells (df ! k)) = [] then Missing
                       else Num (sum_list (nums (cells (df ! k)))
                                  / of_nat (length (nums (cells (df ! k))))))
                 else cells (df ! k) ! j)"
    by (simp add: fillna_mean_def fill_cell_Missing mean_def Let_def)
next
  assume A: "ls \<noteq> [] \<and> (\<forall>l \<in> set ls. \<exists>q. l = Dict (Some ''nulos'') q \<and> metodo q = Some ''mean'')
         \<and> i \<noteq> 0 \<and> datasets i = Some df"
  then obtain df' ops' where "aplicar_limpiezas ls (df, [], 0) = Inr (df', ops', 0)"
    "len df' = len df" using mean_steps [of ls df "[]" 0] by blast
  with A show "\<exists>df' rep. limpiar_dataset_multiple datasets \<lparr>dataset_id = Some i, tipos_limpieza = ls\<rparr>
            = R200 df' rep
          \<and> total_filas rep = len df \<and> total_afectados rep = 0"
    by (simp add: limpiar_dataset_multiple_def make_report_def)
qed

theorem nulos_mean_witness:
  "metodo \<lparr>metodo = Some ''mean'', columnas = None, umbral = None\<rparr> = Some ''mean''
   \<and> aplicar (Some ''nulos'') \<lparr>metodo = Some ''mean'', columnas = None, umbral = None\<rparr>
        tabla_nulos = Inr (fillna_mean tabla_nulos, 0)
   \<and> fillna_mean tabla_nulos =
        [\<lparr>name = ''x'', dtype = Float64, cells = [Num 1, Num 2, Num 3]\<rparr>,
         \<lparr>name = ''y'', dtype = Object, cells = [Txt ''p'', Missing, Txt ''q'']\<rparr>]
   \<and> (0 :: nat) < length tabla_nulos
   \<and> (1 :: nat) < length (cells (tabla_nulos ! 0))
   \<and> cells (fillna_mean tabla_nulos ! 0) ! 1 = Num 2
   \<and> datasets_ejemplo 2 = Some tabla_nulos
   \<and> (\<exists>df' rep.
        limpiar_dataset_multiple datasets_ejemplo
          \<lparr>dataset_id = Some 2,
           tipos_limpieza =
             [Dict (Some ''nulos'') \<lparr>metodo = Some ''mean'', columnas = None, umbral = None\<rparr>]\<rparr>
          = R200 df' rep
        \<and> total_filas rep = len tabla_nulos \<and> total_afectados rep = 0)"
proof -
  let ?p = "\<lparr>metodo = Some ''mean'', columnas = None, umbral = None\<rparr>"
  let ?ls = "[Dict (Some ''nulos'') ?p]"
  have m: "metodo ?p = Some ''mean''" by simp
  note N = nulos_mean [where p = ?p and df = tabla_nulos and ls = ?ls and i = 2
      and datasets = datasets_ejemplo, OF m]
  have k: "(0 :: nat) < length tabla_nulos" by (simp add: tabla_nulos_def)
  have j: "(1 :: nat) < length (cells (tabla_nulos ! 0))" by (simp add: tabla_nulos_def)
  have d: "datasets_ejemplo 2 = Some tabla_nulos" by (simp add: datasets_ejemplo_def)
  have f: "fillna_mean tabla_nulos =
        [\<lparr>name = ''x'', dtype = Float64, cells = [Num 1, Num 2, Num 3]\<rparr>,
         \<lparr>name = ''y'', dtype = Object, cells = [Txt ''p'', Missing, Txt ''q'']\<rparr>]"
    by code_simp
  have a: "aplicar (Some ''nulos'') ?p tabla_nulos = Inr (fillna_mean tabla_nulos, 0)"
    using N by (rule conjunct1)
  note C = N [THEN conjunct2, THEN conjunct2, THEN conjunct2, THEN conjunct1, rule_format,
      OF k, THEN conjunct2, THEN conjunct2, THEN conjunct2, rule_format, OF j]
  have c: "cells (fillna_mean tabla_nulos ! 0) ! 1 = Num 2"
    unfolding C by (simp add: tabla_nulos_def is_numeric_def)
  have r: "\<exists>df' rep.
        limpiar_dataset_multiple datasets_ejemplo
          \<lparr>dataset_id = Some 2, tipos_limpieza = ?ls\<rparr> = R200 df' rep
        \<and> total_filas rep = len tabla_nulos \<and> total_afectados rep = 0"
    by (rule N [THEN conjunct2, THEN conjunct2, THEN conjunct2, THEN conjunct2, rule_format])
       (simp add: d)
  from m a f k j c d r show ?thesis by blast
qed





text \<open>
  Claim C5. The step \<open>duplicados\<close> keeps, in their order, exactly the rows that equal no
  earlier row in all columns, so the first occurrence of every distinct row stays and
  every later copy goes; \<open>afectados\<close> is the number of rows that equal an earlier one, which
  is the number of rows removed; a second \<open>duplicados\<close> right after the first changes
  nothing and reports 0.
\<close>

theorem duplicados_first_occurrence:
  assumes "uniform df"
  shows "aplicar (Some ''duplicados'') p df
      = Inr (drop_duplicates df,
             int (length (filter (\<lambda>i. \<exists>j<i. rows df ! j = rows df ! i) [0..<len df])))
    \<and> rows (drop_duplicates df)
      = map ((!) (rows df)) (filter (\<lambda>i. \<not> (\<exists>j<i. rows df ! j = rows df ! i)) [0..<len df])
    \<and> aplicar (Some ''duplicados'') q (drop_duplicates df) = Inr (drop_duplicates df, 0)"
proof (intro conjI)
  show "aplicar (Some ''duplicados'') p df
      = Inr (drop_duplicates df,
             int (length (filter (\<lambda>i. \<exists>j<i. rows df ! j = rows df ! i) [0..<len df])))"
    using len_drop_duplicates [OF assms] by (simp add: aplicar_def Let_def)
  show "rows (drop_duplicates df)
      = map ((!) (rows df)) (filter (\<lambda>i. \<not> (\<exists>j<i. rows df ! j = rows df ! i)) [0..<len df])"
    using rows_drop_duplicates [OF assms] first_occurrences [of "rows df"] by simp
  show "aplicar (Some ''duplicados'') q (drop_duplicates df) = Inr (drop_duplicates df, 0)"
    using drop_duplicates_twice [OF assms] by (simp add: aplicar_def Let_def)
qed

theorem duplicados_first_occurrence_witness:
  "uniform tabla_duplicados
   \<and> aplicar (Some ''duplicados'') no_params tabla_duplicados
       = Inr ([\<lparr>name = ''a'', dtype = Int64, cells = [Num 1, Num 999]\<rparr>,
              \<lparr>name = ''b'', dtype = Int64, cells = [Num 2, Num 3]\<rparr>], 1)
   \<and> rows [\<lparr>name = ''a'', dtype = Int64, cells = [Num 1, Num 999]\<rparr>,
            \<lparr>name = ''b'', dtype = Int64, cells = [Num 2, Num 3]\<rparr>]
       = [[Num 1, Num 2], [Num 999, Num 3]]
   \<and> aplicar (Some ''duplicados'') no_params
        [\<lparr>name = ''a'', dtype = Int64, cells = [Num 1, Num 999]\<rparr>,
         \<lparr>name = ''b'', dtype = Int64, cells = [Num 2, Num 3]\<rparr>]
       = Inr ([\<lparr>name = ''a'', dtype = Int64, cells = [Num 1, Num 999]\<rparr>,
              \<lparr>name = ''b'', dtype = Int64, cells = [Num 2, Num 3]\<rparr>], 0)"
proof -
  let ?r = "[\<lparr>name = ''a'', dtype = Int64, cells = [Num 1, Num 999]\<rparr>,
            \<lparr>name = ''b'', dtype = Int64, cells = [Num 2, Num 3]\<rparr>]"
  have u: "uniform tabla_duplicados" by code_simp
  have e: "aplicar (Some ''duplicados'') no_params tabla_duplicados = Inr (?r, 1)"
    by code_simp
  have w: "rows ?r = [[Num 1, Num 2], [Num 999, Num 3]]" by code_simp
  note D = duplicados_first_occurrence [OF u, of no_params no_params]
  from D [THEN conjunct1] e have d: "drop_duplicates tabla_duplicados = ?r" by simp
  from D [THEN conjunct2, THEN conjunct2]
  have "aplicar (Some ''duplicados'') no_params ?r = Inr (?r, 0)" unfolding d .
  with u e w show ?thesis by blast
qed



end
